theory Spec2Isabelle
  imports Main "HOL-Library.Word"
begin

section \<open>JavaScript values, errors and strings\<close>

text \<open>
  The module \<^verbatim>\<open>patient-registration.resource.tsx\<close> builds REST requests and hands them
  to the transport function \<^verbatim>\<open>openmrsFetch\<close>. Payloads and responses are untyped
  JavaScript values; an object is the list of its own data properties. Numbers are
  integers here: the module only reads \<^verbatim>\<open>length\<close> members and compares them with 0.
\<close>

datatype jsval =
    JUndefined
  | JNull
  | JBool bool
  | JNum int
  | JStr string
  | JArr "jsval list"
  | JObj "(string \<times> jsval) list"

text \<open>
  What a \<^verbatim>\<open>throw\<close> or a rejected promise carries: the two errors the platform raises
  on the paths of this module, and whatever the transport rejects with.
\<close>

datatype js_error =
    TypeError
  | InvalidCharacterError
  | OpenmrsFetchError jsval

type_synonym 'a result = "js_error + 'a"

definition nullish :: "jsval \<Rightarrow> bool" where
  "nullish v = (v = JUndefined \<or> v = JNull)"

fun truthy :: "jsval \<Rightarrow> bool" where
  "truthy JUndefined = False"
| "truthy JNull = False"
| "truthy (JBool b) = b"
| "truthy (JNum n) = (n \<noteq> 0)"
| "truthy (JStr s) = (s \<noteq> [])"
| "truthy (JArr xs) = True"
| "truthy (JObj kvs) = True"

definition lookup :: "(string \<times> jsval) list \<Rightarrow> string \<Rightarrow> jsval" where
  "lookup kvs k = (case map_of kvs k of None \<Rightarrow> JUndefined | Some v \<Rightarrow> v)"

text \<open>
  Member access \<^verbatim>\<open>v.k\<close>: a TypeError on \<^verbatim>\<open>undefined\<close> and \<^verbatim>\<open>null\<close>, the own property
  of an object, the \<^verbatim>\<open>length\<close> of an array or a string, \<^verbatim>\<open>undefined\<close> for any other
  name (inherited methods are not values of this model).
\<close>

fun get_prop :: "jsval \<Rightarrow> string \<Rightarrow> jsval result" where
  "get_prop JUndefined k = Inl TypeError"
| "get_prop JNull k = Inl TypeError"
| "get_prop (JObj kvs) k = Inr (lookup kvs k)"
| "get_prop (JArr xs) k = Inr (if k = ''length'' then JNum (int (length xs)) else JUndefined)"
| "get_prop (JStr s) k = Inr (if k = ''length'' then JNum (int (length s)) else JUndefined)"
| "get_prop (JBool b) k = Inr JUndefined"
| "get_prop (JNum n) k = Inr JUndefined"

text \<open>Computed member access \<^verbatim>\<open>v[0]\<close>.\<close>

fun index0 :: "jsval \<Rightarrow> jsval result" where
  "index0 JUndefined = Inl TypeError"
| "index0 JNull = Inl TypeError"
| "index0 (JArr xs) = Inr (case xs of [] \<Rightarrow> JUndefined | x # _ \<Rightarrow> x)"
| "index0 (JStr s) = Inr (case s of [] \<Rightarrow> JUndefined | c # _ \<Rightarrow> JStr [c])"
| "index0 (JObj kvs) = Inr (lookup kvs ''0'')"
| "index0 (JBool b) = Inr JUndefined"
| "index0 (JNum n) = Inr JUndefined"

text \<open>
  The comparison \<^verbatim>\<open>v > 0\<close>. A boolean converts to 1 or 0, \<^verbatim>\<open>undefined\<close> to NaN and
  \<^verbatim>\<open>null\<close> to 0, so the last two compare false. A string, array or object operand goes
  through the platform's ToNumber, which is a parameter here: \<open>pos v\<close> tells whether
  that operand converts to a number above 0.
\<close>

fun js_gt_zero :: "(jsval \<Rightarrow> bool) \<Rightarrow> jsval \<Rightarrow> bool" where
  "js_gt_zero pos (JNum n) = (0 < n)"
| "js_gt_zero pos (JBool b) = b"
| "js_gt_zero pos JUndefined = False"
| "js_gt_zero pos JNull = False"
| "js_gt_zero pos (JStr x) = pos (JStr x)"
| "js_gt_zero pos (JArr xs) = pos (JArr xs)"
| "js_gt_zero pos (JObj kvs) = pos (JObj kvs)"

text \<open>\<^verbatim>\<open>xs[i]\<close> on an array of the program: \<^verbatim>\<open>undefined\<close> (here None) out of range.\<close>

definition nth_opt :: "'a list \<Rightarrow> nat \<Rightarrow> 'a option" where
  "nth_opt xs i = (if i < length xs then Some (xs ! i) else None)"

text \<open>\<^verbatim>\<open>s.split(sep)\<close> for a separator of one character.\<close>

fun split_on :: "char \<Rightarrow> string \<Rightarrow> string list" where
  "split_on sep [] = [[]]"
| "split_on sep (c # cs) =
     (if c = sep then [] # split_on sep cs
      else (case split_on sep cs of
              [] \<Rightarrow> [[c]]
            | p # ps \<Rightarrow> (c # p) # ps))"

section \<open>atob: forgiving base64 decoding\<close>

definition is_ascii_whitespace :: "char \<Rightarrow> bool" where
  "is_ascii_whitespace c =
     (c = CHR 0x09 \<or> c = CHR 0x0A \<or> c = CHR 0x0C \<or> c = CHR 0x0D \<or> c = CHR '' '')"

definition b64_value :: "char \<Rightarrow> nat option" where
  "b64_value c =
     (let n = (of_char c :: nat) in
      if 65 \<le> n \<and> n \<le> 90 then Some (n - 65)
      else if 97 \<le> n \<and> n \<le> 122 then Some (n - 71)
      else if 48 \<le> n \<and> n \<le> 57 then Some (n + 4)
      else if c = CHR ''+'' then Some 62
      else if c = CHR ''/'' then Some 63
      else None)"

text \<open>
  When the length is a multiple of four, one or two trailing \<^verbatim>\<open>=\<close> are removed.
\<close>

definition strip_padding :: "string \<Rightarrow> string" where
  "strip_padding d =
     (if length d mod 4 = 0 then
        (if 2 \<le> length d \<and> last d = CHR ''='' \<and> last (butlast d) = CHR ''=''
         then butlast (butlast d)
         else if d \<noteq> [] \<and> last d = CHR ''='' then butlast d
         else d)
      else d)"

text \<open>
  Four sextets give three bytes; a final group of three gives two bytes and a final
  group of two gives one, the spare low bits being dropped.
\<close>

fun decode_sextets :: "nat list \<Rightarrow> string" where
  "decode_sextets (a # b # c # d # rest) =
     (let n = a * 262144 + b * 4096 + c * 64 + d in
      char_of (n div 65536) # char_of (n div 256) # char_of n # decode_sextets rest)"
| "decode_sextets [a, b, c] =
     (let n = (a * 4096 + b * 64 + c) div 4 in [char_of (n div 256), char_of n])"
| "decode_sextets [a, b] = [char_of ((a * 64 + b) div 16)]"
| "decode_sextets [a] = []"
| "decode_sextets [] = []"

definition forgiving_base64_decode :: "string \<Rightarrow> string option" where
  "forgiving_base64_decode s =
     (let d = strip_padding (filter (\<lambda>c. \<not> is_ascii_whitespace c) s) in
      if length d mod 4 = 1 then None
      else map_option decode_sextets (those (map b64_value d)))"

text \<open>
  The argument of \<^verbatim>\<open>atob\<close> is converted to a string first: \<^verbatim>\<open>undefined\<close> (None) becomes
  the nine characters \<^verbatim>\<open>undefined\<close>. The result is a binary string, one character per
  decoded byte.
\<close>

definition to_DOMString :: "string option \<Rightarrow> string" where
  "to_DOMString arg = (case arg of None \<Rightarrow> ''undefined'' | Some s \<Rightarrow> s)"

definition atob :: "string option \<Rightarrow> string result" where
  "atob arg =
     (case forgiving_base64_decode (to_DOMString arg) of
        None \<Rightarrow> Inl InvalidCharacterError
      | Some byteString \<Rightarrow> Inr byteString)"

section \<open>dataURItoFile\<close>

type_synonym uint8 = "8 word"

text \<open>
  A Blob is its bytes and its \<^verbatim>\<open>type\<close>; a File is a Blob with a \<^verbatim>\<open>name\<close>.
\<close>

record js_blob =
  blob_bytes :: "uint8 list"
  blob_type :: string

record js_file =
  file_bytes :: "uint8 list"
  file_type :: string
  file_name :: string

definition blob_size :: "js_blob \<Rightarrow> nat" where
  "blob_size b = length (blob_bytes b)"

definition file_size :: "js_file \<Rightarrow> nat" where
  "file_size f = length (file_bytes f)"

text \<open>
  \<^verbatim>\<open>new Blob(parts, { type })\<close> joins the bytes of its parts. The \<^verbatim>\<open>type\<close> option is kept
  only when all its characters lie in U+0020 to U+007E, and is then put in ASCII
  lowercase; otherwise the type of the blob is the empty string.
\<close>

definition ascii_lowercase :: "char \<Rightarrow> char" where
  "ascii_lowercase c =
     (let n = (of_char c :: nat) in if 65 \<le> n \<and> n \<le> 90 then char_of (n + 32) else c)"

definition normalize_type :: "string \<Rightarrow> string" where
  "normalize_type t =
     (if list_all (\<lambda>c. 32 \<le> (of_char c :: nat) \<and> (of_char c :: nat) \<le> 126) t
      then map ascii_lowercase t
      else [])"

definition new_Blob :: "uint8 list list \<Rightarrow> string \<Rightarrow> js_blob" where
  "new_Blob parts type_option =
     \<lparr>blob_bytes = concat parts, blob_type = normalize_type type_option\<rparr>"

text \<open>
  \<^verbatim>\<open>new File(bits, name)\<close> joins the bytes of its bits and takes the name. Without a
  \<^verbatim>\<open>type\<close> option the type of the file is the empty string: the types of the blobs
  among the bits are not taken over.
\<close>

definition new_File :: "js_blob list \<Rightarrow> string \<Rightarrow> js_file" where
  "new_File bits name =
     \<lparr>file_bytes = concat (map blob_bytes bits), file_type = [], file_name = name\<rparr>"

text \<open>
  The loop \<^verbatim>\<open>for (let i = 0; i < byteString.length; i++) buffer[i] = byteString.charCodeAt(i)\<close>
  on a \<^verbatim>\<open>Uint8Array\<close>, which stores the value modulo 256 and ignores a write out of range.
\<close>

function fill_buffer :: "nat \<Rightarrow> string \<Rightarrow> uint8 list \<Rightarrow> uint8 list" where
  "fill_buffer i byteString buffer =
     (if i < length byteString
      then fill_buffer (i + 1) byteString
             (buffer[i := of_nat (of_char (byteString ! i))])
      else buffer)"
  by pat_completeness auto
termination
  by (relation "measure (\<lambda>(i, byteString, buffer). length byteString - i)") auto

declare fill_buffer.simps [simp del]

text \<open>The function up to its last line: the value of the local \<^verbatim>\<open>blob\<close>.\<close>

definition dataURItoFile_blob :: "string \<Rightarrow> js_blob result" where
  "dataURItoFile_blob dataURI =
     (case atob (nth_opt (split_on CHR '','' dataURI) 1) of
        Inl e \<Rightarrow> Inl e
      | Inr byteString \<Rightarrow>
         (case nth_opt (split_on CHR '','' dataURI) 0 of
            None \<Rightarrow> Inl TypeError
          | Some head \<Rightarrow>
             (case nth_opt (split_on CHR '':'' head) 1 of
                None \<Rightarrow> Inl TypeError
              | Some rest \<Rightarrow>
                 (case nth_opt (split_on CHR '';'' rest) 0 of
                    None \<Rightarrow> Inl TypeError
                  | Some mimeString \<Rightarrow>
                     (let buffer = fill_buffer 0 byteString
                                     (replicate (length byteString) 0)
                      in Inr (new_Blob [buffer] mimeString))))))"

text \<open>The last line: \<^verbatim>\<open>return new File([blob], 'patient-photo.png')\<close>.\<close>

definition dataURItoFile :: "string \<Rightarrow> js_file result" where
  "dataURItoFile dataURI =
     (case dataURItoFile_blob dataURI of
        Inl e \<Rightarrow> Inl e
      | Inr blob \<Rightarrow> Inr (new_File [blob] ''patient-photo.png''))"

text \<open>
  A data URI \<^verbatim>\<open>data:<mime>;base64,<payload>\<close>: the MIME type holds none of the three
  separators and the payload is base64 that \<^verbatim>\<open>atob\<close> accepts.
\<close>

definition data_uri :: "string \<Rightarrow> string \<Rightarrow> string" where
  "data_uri mime payload = ''data:'' @ mime @ '';base64,'' @ payload"

definition valid_mime :: "string \<Rightarrow> bool" where
  "valid_mime mime =
     (CHR '','' \<notin> set mime \<and> CHR '':'' \<notin> set mime \<and> CHR '';'' \<notin> set mime)"

definition valid_payload :: "string \<Rightarrow> bool" where
  "valid_payload payload = (forgiving_base64_decode payload \<noteq> None)"

text \<open>
  The number of bytes a payload decodes to, counted from its significant characters:
  three bytes for every four of them, rounded down.
\<close>

definition decoded_length :: "string \<Rightarrow> nat" where
  "decoded_length payload =
     (length (strip_padding (filter (\<lambda>c. \<not> is_ascii_whitespace c) payload)) * 3) div 4"

section \<open>The transport and the requests sent\<close>

text \<open>
  The second argument of \<^verbatim>\<open>openmrsFetch\<close>: every member is optional, and a member the
  source leaves out is None. A body is either a JavaScript value, which the transport
  serialises as JSON, or a \<^verbatim>\<open>FormData\<close>, sent as multipart.
\<close>

datatype abort_signal = AbortSignal (aborted: bool)

datatype form_value =
    FormString string
  | FormFile js_file
  | FormJSONString jsval \<comment> \<open>the text \<^verbatim>\<open>JSON.stringify\<close> gives for the value\<close>

datatype req_body =
    JsonBody jsval
  | FormDataBody "(string \<times> form_value) list"

record fetch_init =
  init_method :: "string option"
  init_headers :: "(string \<times> string) list option"
  init_body :: "req_body option"
  init_signal :: "abort_signal option"

record request =
  req_url :: string
  req_init :: fetch_init

text \<open>
  The backend and the network are a parameter: a transport answers a request in a
  world \<open>'w\<close> with a response or a rejection, and leaves a new world. The state of a
  run is the world together with the requests sent so far, in order.
\<close>

type_synonym 'w transport = "request \<Rightarrow> 'w \<Rightarrow> jsval result \<times> 'w"

record 'w net =
  world :: 'w
  sent :: "request list"

definition openmrsFetch ::
  "'w transport \<Rightarrow> string \<Rightarrow> fetch_init \<Rightarrow> 'w net \<Rightarrow> jsval result \<times> 'w net" where
  "openmrsFetch t url init s =
     (let req = \<lparr>req_url = url, req_init = init\<rparr>;
          (r, w') = t req (world s)
      in (r, \<lparr>world = w', sent = sent s @ [req]\<rparr>))"

text \<open>\<^verbatim>\<open>new AbortController().signal\<close>: a fresh signal, which nothing in the module aborts.\<close>

definition new_signal :: abort_signal where
  "new_signal = AbortSignal False"

definition json_headers :: "(string \<times> string) list" where
  "json_headers = [(''Content-Type'', ''application/json'')]"

definition has_json_content_type :: "request \<Rightarrow> bool" where
  "has_json_content_type r =
     (case init_headers (req_init r) of
        None \<Rightarrow> False
      | Some hs \<Rightarrow> map_of hs ''Content-Type'' = Some ''application/json'')"

definition has_content_type :: "request \<Rightarrow> bool" where
  "has_content_type r =
     (case init_headers (req_init r) of
        None \<Rightarrow> False
      | Some hs \<Rightarrow> map_of hs ''Content-Type'' \<noteq> None)"

definition body_is_json :: "request \<Rightarrow> bool" where
  "body_is_json r =
     (case init_body (req_init r) of Some (JsonBody v) \<Rightarrow> True | _ \<Rightarrow> False)"

definition body_is_multipart :: "request \<Rightarrow> bool" where
  "body_is_multipart r =
     (case init_body (req_init r) of Some (FormDataBody fd) \<Rightarrow> True | _ \<Rightarrow> False)"

definition has_no_body :: "request \<Rightarrow> bool" where
  "has_no_body r = (init_body (req_init r) = None)"

section \<open>Request functions\<close>

text \<open>\<^verbatim>\<open>updatePatientUuid || ''\<close>: a missing and an empty uuid both give the empty string.\<close>

definition or_empty :: "string option \<Rightarrow> string" where
  "or_empty u = (case u of None \<Rightarrow> [] | Some x \<Rightarrow> x)"

definition savePatient ::
  "'w transport \<Rightarrow> jsval \<Rightarrow> string option \<Rightarrow> 'w net \<Rightarrow> jsval result \<times> 'w net" where
  "savePatient t patient updatePatientUuid s =
     openmrsFetch t (''/ws/rest/v1/patient/'' @ or_empty updatePatientUuid)
       \<lparr>init_method = Some ''POST'', init_headers = Some json_headers,
        init_body = Some (JsonBody patient), init_signal = Some new_signal\<rparr> s"

definition saveEncounter ::
  "'w transport \<Rightarrow> jsval \<Rightarrow> 'w net \<Rightarrow> jsval result \<times> 'w net" where
  "saveEncounter t encounter s =
     openmrsFetch t ''/ws/rest/v1/encounter''
       \<lparr>init_method = Some ''POST'', init_headers = Some json_headers,
        init_body = Some (JsonBody encounter), init_signal = Some new_signal\<rparr> s"

definition generateIdentifier ::
  "'w transport \<Rightarrow> string \<Rightarrow> 'w net \<Rightarrow> jsval result \<times> 'w net" where
  "generateIdentifier t source s =
     openmrsFetch t (''/ws/rest/v1/idgen/identifiersource/'' @ source @ ''/identifier'')
       \<lparr>init_method = Some ''POST'', init_headers = Some json_headers,
        init_body = Some (JsonBody (JObj [])), init_signal = Some new_signal\<rparr> s"

definition deletePersonName ::
  "'w transport \<Rightarrow> string \<Rightarrow> string \<Rightarrow> 'w net \<Rightarrow> jsval result \<times> 'w net" where
  "deletePersonName t nameUuid personUuid s =
     openmrsFetch t (''/ws/rest/v1/person/'' @ personUuid @ ''/name/'' @ nameUuid)
       \<lparr>init_method = Some ''DELETE'', init_headers = None,
        init_body = None, init_signal = Some new_signal\<rparr> s"

definition saveRelationship ::
  "'w transport \<Rightarrow> jsval \<Rightarrow> 'w net \<Rightarrow> jsval result \<times> 'w net" where
  "saveRelationship t relationship s =
     openmrsFetch t ''/ws/rest/v1/relationship''
       \<lparr>init_method = Some ''POST'', init_headers = Some json_headers,
        init_body = Some (JsonBody relationship), init_signal = Some new_signal\<rparr> s"

text \<open>The update takes a \<^verbatim>\<open>{ relationshipType: string }\<close> and sends that member alone.\<close>

record relationship_update =
  relationshipType :: string

definition updateRelationship ::
  "'w transport \<Rightarrow> string \<Rightarrow> relationship_update \<Rightarrow> 'w net \<Rightarrow> jsval result \<times> 'w net" where
  "updateRelationship t relationshipUuid relationship s =
     openmrsFetch t (''/ws/rest/v1/relationship/'' @ relationshipUuid)
       \<lparr>init_method = Some ''POST'', init_headers = Some json_headers,
        init_body = Some (JsonBody
          (JObj [(''relationshipType'', JStr (relationshipType relationship))])),
        init_signal = Some new_signal\<rparr> s"

definition deleteRelationship ::
  "'w transport \<Rightarrow> string \<Rightarrow> 'w net \<Rightarrow> jsval result \<times> 'w net" where
  "deleteRelationship t relationshipUuid s =
     openmrsFetch t (''/ws/rest/v1/relationship/'' @ relationshipUuid)
       \<lparr>init_method = Some ''DELETE'', init_headers = Some json_headers,
        init_body = None, init_signal = Some new_signal\<rparr> s"

text \<open>
  \<^verbatim>\<open>savePatientPhoto\<close> is async: an exception of \<^verbatim>\<open>dataURItoFile\<close> rejects its promise
  before any request is made.
\<close>

definition savePatientPhoto ::
  "'w transport \<Rightarrow> string \<Rightarrow> string \<Rightarrow> string \<Rightarrow> string \<Rightarrow> string \<Rightarrow> 'w net
     \<Rightarrow> jsval result \<times> 'w net" where
  "savePatientPhoto t patientUuid content url date conceptUuid s =
     (case dataURItoFile content of
        Inl e \<Rightarrow> (Inl e, s)
      | Inr file \<Rightarrow>
          (let formData =
                 [(''patient'', FormString patientUuid),
                  (''file'', FormFile file),
                  (''json'', FormJSONString
                     (JObj [(''person'', JStr patientUuid),
                            (''concept'', JStr conceptUuid),
                            (''groupMembers'', JArr []),
                            (''obsDatetime'', JStr date)]))]
           in openmrsFetch t url
                \<lparr>init_method = Some ''POST'', init_headers = None,
                 init_body = Some (FormDataBody formData),
                 init_signal = Some new_signal\<rparr> s))"

definition addPatientIdentifier ::
  "'w transport \<Rightarrow> string \<Rightarrow> jsval \<Rightarrow> 'w net \<Rightarrow> jsval result \<times> 'w net" where
  "addPatientIdentifier t patientUuid patientIdentifier s =
     openmrsFetch t (''/ws/rest/v1/patient/'' @ patientUuid @ ''/identifier/'')
       \<lparr>init_method = Some ''POST'', init_headers = Some json_headers,
        init_body = Some (JsonBody patientIdentifier), init_signal = Some new_signal\<rparr> s"

definition updatePatientIdentifier ::
  "'w transport \<Rightarrow> string \<Rightarrow> string \<Rightarrow> string \<Rightarrow> 'w net \<Rightarrow> jsval result \<times> 'w net" where
  "updatePatientIdentifier t patientUuid identifierUuid identifier s =
     openmrsFetch t (''/ws/rest/v1/patient/'' @ patientUuid @ ''/identifier/'' @ identifierUuid)
       \<lparr>init_method = Some ''POST'', init_headers = Some json_headers,
        init_body = Some (JsonBody (JObj [(''identifier'', JStr identifier)])),
        init_signal = Some new_signal\<rparr> s"

definition deletePatientIdentifier ::
  "'w transport \<Rightarrow> string \<Rightarrow> string \<Rightarrow> 'w net \<Rightarrow> jsval result \<times> 'w net" where
  "deletePatientIdentifier t patientUuid patientIdentifierUuid s =
     openmrsFetch t
       (''/ws/rest/v1/patient/'' @ patientUuid @ ''/identifier/'' @ patientIdentifierUuid
          @ ''?purge'')
       \<lparr>init_method = Some ''DELETE'', init_headers = Some json_headers,
        init_body = None, init_signal = Some new_signal\<rparr> s"

section \<open>fetchPerson\<close>

definition signal_init :: fetch_init where
  "signal_init =
     \<lparr>init_method = None, init_headers = None, init_body = None,
      init_signal = Some new_signal\<rparr>"

definition BASE_API :: string where
  "BASE_API = ''/ws/rest/v1''"

definition personEndpoint :: "string \<Rightarrow> string" where
  "personEndpoint query = BASE_API @ ''/person?q='' @ query"

definition patientEndpoint :: "string \<Rightarrow> string" where
  "patientEndpoint query = BASE_API @ ''/patient?q='' @ query"

text \<open>
  \<^verbatim>\<open>try { ... } catch (error) { throw error; }\<close>: the handler runs on what the block
  throws, in the state the block left.
\<close>

definition throw :: "js_error \<Rightarrow> 's \<Rightarrow> 'a result \<times> 's" where
  "throw e s = (Inl e, s)"

definition try_catch ::
  "'a result \<times> 's \<Rightarrow> (js_error \<Rightarrow> 's \<Rightarrow> 'a result \<times> 's) \<Rightarrow> 'a result \<times> 's" where
  "try_catch block handler =
     (case block of
        (Inl e, s) \<Rightarrow> handler e s
      | (Inr v, s) \<Rightarrow> (Inr v, s))"

text \<open>
  The block of the \<^verbatim>\<open>try\<close>. The first call is awaited, so its rejection is thrown
  inside the block, as is the TypeError of destructuring \<^verbatim>\<open>{ data: { results } }\<close> or of
  reading \<^verbatim>\<open>results.length\<close>. The block returns (outer Inr) either a value or, in the
  fallback, the promise of the second call, which is not awaited: the inner result is
  how that promise settles.
\<close>

definition fetchPerson_try ::
  "(jsval \<Rightarrow> bool) \<Rightarrow> 'w transport \<Rightarrow> string \<Rightarrow> 'w net
     \<Rightarrow> (jsval result) result \<times> 'w net" where
  "fetchPerson_try pos t query s =
     (case openmrsFetch t (personEndpoint query) signal_init s of
        (Inl e, s1) \<Rightarrow> (Inl e, s1)
      | (Inr response, s1) \<Rightarrow>
         (case get_prop response ''data'' of
            Inl e \<Rightarrow> (Inl e, s1)
          | Inr d \<Rightarrow>
             (case get_prop d ''results'' of
                Inl e \<Rightarrow> (Inl e, s1)
              | Inr results \<Rightarrow>
                 (case get_prop results ''length'' of
                    Inl e \<Rightarrow> (Inl e, s1)
                  | Inr len \<Rightarrow>
                     if js_gt_zero pos len
                     then (Inr (Inr (JObj [(''data'', JObj [(''results'', results)])])), s1)
                     else (case openmrsFetch t (patientEndpoint query) signal_init s1 of
                             (p, s2) \<Rightarrow> (Inr p, s2))))))"

text \<open>
  The async function settles as the block completes: rejected with what the handler
  throws, or resolved with the returned value, a returned promise being adopted.
\<close>

definition settle :: "(jsval result) result \<times> 's \<Rightarrow> jsval result \<times> 's" where
  "settle c = (case c of (Inl e, s) \<Rightarrow> (Inl e, s) | (Inr p, s) \<Rightarrow> (p, s))"

definition fetchPerson ::
  "(jsval \<Rightarrow> bool) \<Rightarrow> 'w transport \<Rightarrow> string \<Rightarrow> 'w net \<Rightarrow> jsval result \<times> 'w net" where
  "fetchPerson pos t query s = settle (try_catch (fetchPerson_try pos t query s) throw)"

section \<open>usePatientPhoto\<close>

record concepts_config =
  patientPhotoUuid :: string

record config =
  concepts :: concepts_config

text \<open>
  What \<^verbatim>\<open>useSWR\<close> hands back on a render. The library is a collaborator: for a key that
  is not null its behaviour (cache, requests through the fetcher, loading state) is the
  parameter \<open>swr\<close>; for the null key it makes no request and returns its idle state.
\<close>

record swr_response =
  swr_data :: jsval
  swr_error :: "js_error option"
  swr_isLoading :: bool

type_synonym 'w fetcher = "string \<Rightarrow> 'w net \<Rightarrow> jsval result \<times> 'w net"

type_synonym 'w swr = "string \<Rightarrow> 'w fetcher \<Rightarrow> 'w net \<Rightarrow> swr_response \<times> 'w net"

definition useSWR ::
  "'w swr \<Rightarrow> string option \<Rightarrow> 'w fetcher \<Rightarrow> 'w net \<Rightarrow> swr_response \<times> 'w net" where
  "useSWR swr key fetcher s =
     (case key of
        None \<Rightarrow> (\<lparr>swr_data = JUndefined, swr_error = None, swr_isLoading = False\<rparr>, s)
      | Some k \<Rightarrow> swr k fetcher s)"

text \<open>One behaviour of the collaborator: it calls the fetcher and reports how it settled.\<close>

definition swr_settled :: "'w swr" where
  "swr_settled k fetcher s =
     (case fetcher k s of
        (Inl e, s') \<Rightarrow>
          (\<lparr>swr_data = JUndefined, swr_error = Some e, swr_isLoading = False\<rparr>, s')
      | (Inr r, s') \<Rightarrow>
          (\<lparr>swr_data = r, swr_error = None, swr_isLoading = False\<rparr>, s'))"

text \<open>\<^verbatim>\<open>openmrsFetch(url)\<close> as SWR calls it: with the key and nothing else.\<close>

definition no_init :: fetch_init where
  "no_init =
     \<lparr>init_method = None, init_headers = None, init_body = None, init_signal = None\<rparr>"

text \<open>
  \<^verbatim>\<open>v?.k\<close> is \<^verbatim>\<open>undefined\<close> exactly where \<^verbatim>\<open>v.k\<close> throws, on \<^verbatim>\<open>undefined\<close> and \<^verbatim>\<open>null\<close>.
\<close>

definition opt_get :: "jsval \<Rightarrow> string \<Rightarrow> jsval" where
  "opt_get v k = (case get_prop v k of Inl e \<Rightarrow> JUndefined | Inr x \<Rightarrow> x)"

text \<open>
  \<^verbatim>\<open>data?.data?.results[0]\<close>: each \<^verbatim>\<open>?.\<close> ends the whole chain with \<^verbatim>\<open>undefined\<close> when
  its base is nullish; the index is applied to whatever \<^verbatim>\<open>results\<close> is.
\<close>

definition first_item :: "jsval \<Rightarrow> jsval result" where
  "first_item d =
     (if nullish d then Inr JUndefined
      else (case get_prop d ''data'' of
              Inl e \<Rightarrow> Inl e
            | Inr dd \<Rightarrow>
               if nullish dd then Inr JUndefined
               else (case get_prop dd ''results'' of
                       Inl e \<Rightarrow> Inl e
                     | Inr results \<Rightarrow> index0 results)))"

record photo =
  dateTime :: jsval
  imageSrc :: jsval

record photo_result =
  data :: "photo option"
  isError :: "js_error option"
  isLoading :: bool

definition photo_url :: "string \<Rightarrow> string \<Rightarrow> string" where
  "photo_url patientUuid conceptUuid =
     ''/ws/rest/v1/obs?patient='' @ patientUuid @ ''&concept='' @ conceptUuid @ ''&v=full''"

definition usePatientPhoto ::
  "config \<Rightarrow> 'w swr \<Rightarrow> 'w transport \<Rightarrow> string \<Rightarrow> 'w net \<Rightarrow> photo_result result \<times> 'w net" where
  "usePatientPhoto cfg swr t patientUuid s =
     (let url = photo_url patientUuid (patientPhotoUuid (concepts cfg)) in
      case useSWR swr (if patientUuid \<noteq> [] then Some url else None)
             (\<lambda>u. openmrsFetch t u no_init) s of
        (response, s') \<Rightarrow>
          (case first_item (swr_data response) of
             Inl e \<Rightarrow> (Inl e, s')
           | Inr item \<Rightarrow>
              (Inr \<lparr>data =
                      (if truthy item
                       then Some \<lparr>dateTime = opt_get item ''obsDatetime'',
                                  imageSrc = opt_get (opt_get (opt_get item ''value'') ''links'')
                                               ''uri''\<rparr>
                       else None),
                    isError = swr_error response,
                    isLoading = swr_isLoading response\<rparr>, s')))"

section \<open>Every request function\<close>

text \<open>
  A call of one of the exported request functions, with its arguments; \<open>pos\<close> is the
  platform parameter of \<^verbatim>\<open>fetchPerson\<close>.
\<close>

datatype api_call =
    SavePatient jsval "string option"
  | SaveEncounter jsval
  | GenerateIdentifier string
  | DeletePersonName string string
  | SaveRelationship jsval
  | UpdateRelationship string relationship_update
  | DeleteRelationship string
  | SavePatientPhoto string string string string string
  | FetchPerson string
  | AddPatientIdentifier string jsval
  | UpdatePatientIdentifier string string string
  | DeletePatientIdentifier string string

fun perform ::
  "(jsval \<Rightarrow> bool) \<Rightarrow> 'w transport \<Rightarrow> api_call \<Rightarrow> 'w net \<Rightarrow> jsval result \<times> 'w net" where
  "perform pos t (SavePatient patient uuid) s = savePatient t patient uuid s"
| "perform pos t (SaveEncounter encounter) s = saveEncounter t encounter s"
| "perform pos t (GenerateIdentifier source) s = generateIdentifier t source s"
| "perform pos t (DeletePersonName nameUuid personUuid) s = deletePersonName t nameUuid personUuid s"
| "perform pos t (SaveRelationship relationship) s = saveRelationship t relationship s"
| "perform pos t (UpdateRelationship uuid relationship) s = updateRelationship t uuid relationship s"
| "perform pos t (DeleteRelationship uuid) s = deleteRelationship t uuid s"
| "perform pos t (SavePatientPhoto patientUuid content url date conceptUuid) s =
     savePatientPhoto t patientUuid content url date conceptUuid s"
| "perform pos t (FetchPerson query) s = fetchPerson pos t query s"
| "perform pos t (AddPatientIdentifier patientUuid ident) s = addPatientIdentifier t patientUuid ident s"
| "perform pos t (UpdatePatientIdentifier patientUuid identifierUuid ident) s =
     updatePatientIdentifier t patientUuid identifierUuid ident s"
| "perform pos t (DeletePatientIdentifier patientUuid identifierUuid) s =
     deletePatientIdentifier t patientUuid identifierUuid s"

text \<open>The calls that make one request whatever their arguments are.\<close>

fun single_request :: "api_call \<Rightarrow> bool" where
  "single_request (FetchPerson query) = False"
| "single_request (SavePatientPhoto patientUuid content url date conceptUuid) = False"
| "single_request c = True"

text \<open>The requests a run added to the log.\<close>

definition new_requests :: "'w net \<Rightarrow> 'a \<times> 'w net \<Rightarrow> request list" where
  "new_requests s out = drop (length (sent s)) (sent (snd out))"

text \<open>
  Transports for concrete runs, on a world that counts the requests answered: one
  answers from a table keyed by URL and rejects any other URL, one rejects everything.
\<close>

definition table_transport :: "(string \<times> jsval) list \<Rightarrow> jsval \<Rightarrow> nat transport" where
  "table_transport table failure req w =
     (case map_of table (req_url req) of
        None \<Rightarrow> (Inl (OpenmrsFetchError failure), Suc w)
      | Some response \<Rightarrow> (Inr response, Suc w))"

definition start :: "nat net" where
  "start = \<lparr>world = 0, sent = []\<rparr>"

definition config0 :: config where
  "config0 = \<lparr>concepts = \<lparr>patientPhotoUuid = ''c1''\<rparr>\<rparr>"

section \<open>Strings, decoding and the copy loop\<close>

lemma split_on_absent: "sep \<notin> set s \<Longrightarrow> split_on sep s = [s]"
  by (induction s) auto

lemma split_on_first: "sep \<notin> set a \<Longrightarrow> split_on sep (a @ sep # b) = a # split_on sep b"
  by (induction a) auto

lemma fill_buffer_eq:
  "i \<le> length bs \<Longrightarrow> length buf = length bs \<Longrightarrow>
   fill_buffer i bs buf = take i buf @ map (\<lambda>c. of_nat (of_char c)) (drop i bs)"
proof (induction i bs buf rule: fill_buffer.induct)
  case (1 i bs buf)
  show ?case
  proof (cases "i < length bs")
    case True
    have "fill_buffer i bs buf = fill_buffer (i + 1) bs (buf[i := of_nat (of_char (bs ! i))])"
      using True by (subst fill_buffer.simps) simp
    also have "\<dots> = take (i + 1) (buf[i := of_nat (of_char (bs ! i))])
                      @ map (\<lambda>c. of_nat (of_char c)) (drop (i + 1) bs)"
      using 1 True by simp
    also have "\<dots> = take i buf @ map (\<lambda>c. of_nat (of_char c)) (drop i bs)"
      using True 1(3) by (simp add: take_Suc_conv_app_nth Cons_nth_drop_Suc[symmetric])
    finally show ?thesis .
  next
    case False
    then show ?thesis using 1(2,3) by (subst fill_buffer.simps) simp
  qed
qed

lemma fill_buffer_all:
  "fill_buffer 0 bs (replicate (length bs) 0) = map (\<lambda>c. of_nat (of_char c)) bs"
  by (simp add: fill_buffer_eq)

lemma length_decode_sextets:
  "length vs mod 4 \<noteq> 1 \<Longrightarrow> length (decode_sextets vs) = (length vs * 3) div 4"
  by (induction vs rule: decode_sextets.induct) (auto simp: Let_def)

lemma those_length: "those xs = Some ys \<Longrightarrow> length ys = length xs"
  by (induction xs arbitrary: ys) (auto split: option.splits)

lemma those_map_defined: "those (map f xs) = Some ys \<Longrightarrow> x \<in> set xs \<Longrightarrow> f x \<noteq> None"
  by (induction xs arbitrary: ys) (auto split: option.splits)

lemma set_butlast_last: "d \<noteq> [] \<Longrightarrow> set d = insert (last d) (set (butlast d))"
  by (induction d) auto

lemma set_strip_padding: "x \<in> set d \<Longrightarrow> x \<noteq> CHR ''='' \<Longrightarrow> x \<in> set (strip_padding d)"
proof -
  assume x: "x \<in> set d" "x \<noteq> CHR ''=''"
  then have ne: "d \<noteq> []" by auto
  have b1: "last d = CHR ''='' \<Longrightarrow> x \<in> set (butlast d)"
    using x set_butlast_last[OF ne] by auto
  have b2: "last d = CHR ''='' \<Longrightarrow> last (butlast d) = CHR ''='' \<Longrightarrow> butlast d \<noteq> []
            \<Longrightarrow> x \<in> set (butlast (butlast d))"
    using b1 x(2) set_butlast_last[of "butlast d"] by auto
  have b3: "2 \<le> length d \<Longrightarrow> butlast d \<noteq> []"
    by (cases d) (auto simp: Suc_le_eq)
  show ?thesis
    unfolding strip_padding_def using x b1 b2 b3 by auto
qed

lemma decode_length:
  assumes "forgiving_base64_decode p = Some bs"
  shows "length bs = decoded_length p"
proof -
  define d where "d = strip_padding (filter (\<lambda>c. \<not> is_ascii_whitespace c) p)"
  from assms have m: "length d mod 4 \<noteq> 1"
    and "map_option decode_sextets (those (map b64_value d)) = Some bs"
    by (auto simp: forgiving_base64_decode_def Let_def d_def split: if_splits)
  then obtain vs where vs: "those (map b64_value d) = Some vs" and bs: "bs = decode_sextets vs"
    by auto
  have "length vs = length d" using those_length[OF vs] by simp
  then show ?thesis
    using m bs by (simp add: length_decode_sextets decoded_length_def d_def)
qed

lemma decode_no_comma:
  assumes "forgiving_base64_decode p = Some bs"
  shows "CHR '','' \<notin> set p"
proof
  assume c: "CHR '','' \<in> set p"
  define d where "d = strip_padding (filter (\<lambda>c. \<not> is_ascii_whitespace c) p)"
  from assms obtain vs where vs: "those (map b64_value d) = Some vs"
    by (auto simp: forgiving_base64_decode_def Let_def d_def split: if_splits)
  have "CHR '','' \<in> set (filter (\<lambda>c. \<not> is_ascii_whitespace c) p)"
    using c by (simp add: is_ascii_whitespace_def)
  then have "CHR '','' \<in> set d"
    unfolding d_def by (rule set_strip_padding) simp
  then have "b64_value CHR '','' \<noteq> None"
    by (rule those_map_defined[OF vs])
  then show False by (simp add: b64_value_def)
qed

lemma split_data_uri:
  assumes "valid_mime mime" "CHR '','' \<notin> set payload"
  shows "split_on CHR '','' (data_uri mime payload) = [''data:'' @ mime @ '';base64'', payload]"
proof -
  have "CHR '','' \<notin> set (''data:'' @ mime @ '';base64'')"
    using assms(1) by (simp add: valid_mime_def)
  then have "split_on CHR '','' ((''data:'' @ mime @ '';base64'') @ CHR '','' # payload)
             = (''data:'' @ mime @ '';base64'') # split_on CHR '','' payload"
    by (rule split_on_first)
  then show ?thesis
    using assms(2) by (simp add: data_uri_def split_on_absent)
qed

lemma split_head:
  assumes "valid_mime mime"
  shows "split_on CHR '':'' (''data:'' @ mime @ '';base64'') = [''data'', mime @ '';base64'']"
proof -
  have "CHR '':'' \<notin> set (mime @ '';base64'')"
    using assms by (simp add: valid_mime_def)
  then have "split_on CHR '':'' (mime @ '';base64'') = [mime @ '';base64'']"
    by (rule split_on_absent)
  moreover have "split_on CHR '':'' (''data'' @ CHR '':'' # (mime @ '';base64''))
                 = ''data'' # split_on CHR '':'' (mime @ '';base64'')"
    by (rule split_on_first) simp
  ultimately show ?thesis by simp
qed

lemma split_mime:
  assumes "valid_mime mime"
  shows "split_on CHR '';'' (mime @ '';base64'') = [mime, ''base64'']"
proof -
  have "split_on CHR '';'' (mime @ CHR '';'' # ''base64'') = mime # split_on CHR '';'' ''base64''"
    using assms by (intro split_on_first) (simp add: valid_mime_def)
  then show ?thesis by simp
qed

lemma decode_QUJD: "forgiving_base64_decode ''QUJD'' = Some ''ABC''"
  by (simp add: forgiving_base64_decode_def is_ascii_whitespace_def strip_padding_def
        b64_value_def Let_def char_of_eq_iff take_bit_eq_mod)

lemma dataURItoFile_blob_example:
  "dataURItoFile_blob (data_uri ''image/png'' ''QUJD'') =
     Inr \<lparr>blob_bytes = [65, 66, 67], blob_type = ''image/png''\<rparr>"
proof -
  have "fill_buffer 0 ''ABC'' [0, 0, 0] = [65, 66, 67]"
    using fill_buffer_all [of "''ABC''"] by (simp add: numeral_3_eq_3)
  then show ?thesis
    by (simp add: dataURItoFile_blob_def data_uri_def nth_opt_def atob_def to_DOMString_def
          decode_QUJD new_Blob_def normalize_type_def ascii_lowercase_def)
qed

lemma dataURItoFile_example:
  "dataURItoFile (data_uri ''image/png'' ''QUJD'') =
     Inr \<lparr>file_bytes = [65, 66, 67], file_type = [], file_name = ''patient-photo.png''\<rparr>"
  by (simp add: dataURItoFile_def dataURItoFile_blob_example new_File_def)

section \<open>Requests and the log\<close>

lemma openmrsFetch_eq:
  "openmrsFetch t url init s =
     (fst (t \<lparr>req_url = url, req_init = init\<rparr> (world s)),
      \<lparr>world = snd (t \<lparr>req_url = url, req_init = init\<rparr> (world s)),
       sent = sent s @ [\<lparr>req_url = url, req_init = init\<rparr>]\<rparr>)"
  by (simp add: openmrsFetch_def Let_def split: prod.splits)

lemma try_catch_throw: "try_catch block throw = block"
  by (cases block) (auto simp: try_catch_def throw_def split: sum.splits)

lemma new_requests_openmrsFetch:
  "new_requests s (openmrsFetch t url init s) = [\<lparr>req_url = url, req_init = init\<rparr>]"
  by (simp add: new_requests_def openmrsFetch_eq)

lemma new_requests_same: "new_requests s (x, s) = []"
  by (simp add: new_requests_def)

lemma fetchPerson_new_requests:
  "new_requests s (fetchPerson pos t q s) = [\<lparr>req_url = personEndpoint q, req_init = signal_init\<rparr>]
   \<or> new_requests s (fetchPerson pos t q s) =
        [\<lparr>req_url = personEndpoint q, req_init = signal_init\<rparr>,
         \<lparr>req_url = patientEndpoint q, req_init = signal_init\<rparr>]"
  by (simp add: fetchPerson_def try_catch_throw fetchPerson_try_def openmrsFetch_eq
        settle_def new_requests_def split: sum.splits)

lemma savePatientPhoto_new_requests:
  "r \<in> set (new_requests s (savePatientPhoto t p content url date cu s))
   \<Longrightarrow> body_is_multipart r \<and> \<not> has_content_type r"
  by (auto simp: savePatientPhoto_def new_requests_openmrsFetch new_requests_same Let_def
        body_is_multipart_def has_content_type_def split: sum.splits)

lemma header_by_body:
  assumes "r \<in> set (new_requests s (perform pos t c s))"
  shows "(body_is_json r \<longrightarrow> has_json_content_type r)
       \<and> (body_is_multipart r \<longrightarrow> \<not> has_content_type r)"
proof (cases c)
  case (SavePatientPhoto p content url date cu)
  then show ?thesis
    using assms savePatientPhoto_new_requests[of r s t p content url date cu]
    by (simp add: body_is_json_def body_is_multipart_def split: option.splits req_body.splits)
next
  case (FetchPerson q)
  then show ?thesis
    using assms fetchPerson_new_requests[where s = s and t = t and q = q and pos = pos]
    by (auto simp: body_is_json_def body_is_multipart_def signal_init_def)
qed (use assms in \<open>auto simp: new_requests_openmrsFetch savePatient_def saveEncounter_def
      generateIdentifier_def deletePersonName_def saveRelationship_def updateRelationship_def
      deleteRelationship_def addPatientIdentifier_def updatePatientIdentifier_def
      deletePatientIdentifier_def body_is_json_def body_is_multipart_def
      has_json_content_type_def has_content_type_def json_headers_def\<close>)

lemma single_request_perform:
  assumes "single_request c"
  shows "\<exists>req. perform pos t c s =
           (fst (t req (world s)), \<lparr>world = snd (t req (world s)), sent = sent s @ [req]\<rparr>)"
  using assms
  by (cases c)
     (auto simp: openmrsFetch_eq savePatient_def saveEncounter_def
      generateIdentifier_def deletePersonName_def saveRelationship_def updateRelationship_def
      deleteRelationship_def addPatientIdentifier_def updatePatientIdentifier_def
      deletePatientIdentifier_def)

lemma table_transport_empty:
  "table_transport [] failure req w = (Inl (OpenmrsFetchError failure), Suc w)"
  by (simp add: table_transport_def)

lemma photo_url0: "photo_url ''p1'' (patientPhotoUuid (concepts config0)) = ''/ws/rest/v1/obs?patient=p1&concept=c1&v=full''"
  by (simp add: photo_url_def config0_def)

lemma swr_settled_table:
  "swr_settled ''/ws/rest/v1/obs?patient=p1&concept=c1&v=full''
     (\<lambda>u. openmrsFetch (table_transport [(''/ws/rest/v1/obs?patient=p1&concept=c1&v=full'', v)] JNull) u no_init) start
   = (\<lparr>swr_data = v, swr_error = None, swr_isLoading = False\<rparr>,
      \<lparr>world = 1, sent = [\<lparr>req_url = ''/ws/rest/v1/obs?patient=p1&concept=c1&v=full'', req_init = no_init\<rparr>]\<rparr>)"
  by (simp add: swr_settled_def openmrsFetch_eq table_transport_def start_def)

section \<open>The person search and its fallback\<close>

text \<open>
  C1. For every query string \<open>q\<close>, \<^verbatim>\<open>fetchPerson(q)\<close> first queries the person search
  endpoint. When that response carries a \<^verbatim>\<open>results\<close> list that is not empty, the call
  returns those results (as \<^verbatim>\<open>{ data: { results } }\<close>) after that one request. When the
  list is empty, it queries the patient search endpoint with the same query string and
  returns what that second call gives, unchanged.
\<close>

theorem fetchPerson_person_then_patient:
  assumes "t \<lparr>req_url = ''/ws/rest/v1/person?q='' @ q, req_init = signal_init\<rparr> (world s)
             = (Inr response, w')"
    and "get_prop response ''data'' = Inr d"
    and "get_prop d ''results'' = Inr (JArr rs)"
  shows "(rs \<noteq> [] \<longrightarrow>
            fetchPerson pos t q s =
              (Inr (JObj [(''data'', JObj [(''results'', JArr rs)])]),
               \<lparr>world = w',
                sent = sent s @ [\<lparr>req_url = ''/ws/rest/v1/person?q='' @ q,
                                  req_init = signal_init\<rparr>]\<rparr>))
       \<and> (rs = [] \<longrightarrow>
            fetchPerson pos t q s =
              (fst (t \<lparr>req_url = ''/ws/rest/v1/patient?q='' @ q, req_init = signal_init\<rparr> w'),
               \<lparr>world = snd (t \<lparr>req_url = ''/ws/rest/v1/patient?q='' @ q,
                                 req_init = signal_init\<rparr> w'),
                sent = sent s @ [\<lparr>req_url = ''/ws/rest/v1/person?q='' @ q,
                                  req_init = signal_init\<rparr>,
                                 \<lparr>req_url = ''/ws/rest/v1/patient?q='' @ q,
                                  req_init = signal_init\<rparr>]\<rparr>))"
  using assms
  by (simp add: fetchPerson_def try_catch_throw fetchPerson_try_def openmrsFetch_eq
        personEndpoint_def patientEndpoint_def BASE_API_def settle_def)

theorem fetchPerson_person_then_patient_witness:
  "fetchPerson (\<lambda>v. False)
     (table_transport
        [(''/ws/rest/v1/person?q=ann'',
          JObj [(''data'', JObj [(''results'', JArr [JStr ''p1''])]), (''status'', JNum 200)])]
        JNull) ''ann'' start
   = (Inr (JObj [(''data'', JObj [(''results'', JArr [JStr ''p1''])])]),
      \<lparr>world = 1,
       sent = [\<lparr>req_url = ''/ws/rest/v1/person?q=ann'', req_init = signal_init\<rparr>]\<rparr>)
   \<and> fetchPerson (\<lambda>v. False)
     (table_transport
        [(''/ws/rest/v1/person?q=ann'', JObj [(''data'', JObj [(''results'', JArr [])])]),
         (''/ws/rest/v1/patient?q=ann'',
          JObj [(''data'', JObj [(''results'', JArr [JStr ''pt''])]), (''status'', JNum 200)])]
        JNull) ''ann'' start
   = (Inr (JObj [(''data'', JObj [(''results'', JArr [JStr ''pt''])]), (''status'', JNum 200)]),
      \<lparr>world = 2,
       sent = [\<lparr>req_url = ''/ws/rest/v1/person?q=ann'', req_init = signal_init\<rparr>,
               \<lparr>req_url = ''/ws/rest/v1/patient?q=ann'', req_init = signal_init\<rparr>]\<rparr>)"
proof -
  let ?t1 = "table_transport
        [(''/ws/rest/v1/person?q=ann'',
          JObj [(''data'', JObj [(''results'', JArr [JStr ''p1''])]), (''status'', JNum 200)])]
        JNull"
  let ?t2 = "table_transport
        [(''/ws/rest/v1/person?q=ann'', JObj [(''data'', JObj [(''results'', JArr [])])]),
         (''/ws/rest/v1/patient?q=ann'',
          JObj [(''data'', JObj [(''results'', JArr [JStr ''pt''])]), (''status'', JNum 200)])]
        JNull"
  from fetchPerson_person_then_patient
         [where pos = "\<lambda>v. False" and t = ?t1 and q = "''ann''" and s = start and w' = 1
            and response = "JObj [(''data'', JObj [(''results'', JArr [JStr ''p1''])]),
                                  (''status'', JNum 200)]"
            and d = "JObj [(''results'', JArr [JStr ''p1''])]" and rs = "[JStr ''p1'']"]
       fetchPerson_person_then_patient
         [where pos = "\<lambda>v. False" and t = ?t2 and q = "''ann''" and s = start and w' = 1
            and response = "JObj [(''data'', JObj [(''results'', JArr [])])]"
            and d = "JObj [(''results'', JArr [])]" and rs = "[]"]
  show ?thesis
    by (simp add: table_transport_def start_def lookup_def)
qed

text \<open>
  C9. When the person search yields a list that is not empty, the value returned is an
  object with the single member \<^verbatim>\<open>data\<close>, itself holding \<^verbatim>\<open>results\<close> only: every other
  member of the transport's response, \<^verbatim>\<open>status\<close> among them, reads as \<^verbatim>\<open>undefined\<close> on
  it, whatever the response held.
\<close>

theorem fetchPerson_results_only:
  assumes "t \<lparr>req_url = ''/ws/rest/v1/person?q='' @ q, req_init = signal_init\<rparr> (world s)
             = (Inr response, w')"
    and "get_prop response ''data'' = Inr d"
    and "get_prop d ''results'' = Inr (JArr rs)"
    and "rs \<noteq> []"
  shows "fst (fetchPerson pos t q s) = Inr (JObj [(''data'', JObj [(''results'', JArr rs)])])
       \<and> (\<forall>k. k \<noteq> ''data'' \<longrightarrow>
             (case fst (fetchPerson pos t q s) of Inl e \<Rightarrow> Inl e | Inr v \<Rightarrow> get_prop v k) = Inr JUndefined)"
  using assms
  by (simp add: fetchPerson_def try_catch_throw fetchPerson_try_def openmrsFetch_eq
        personEndpoint_def patientEndpoint_def BASE_API_def settle_def lookup_def)

theorem fetchPerson_results_only_witness:
  "get_prop (JObj [(''data'', JObj [(''results'', JArr [JStr ''p1''])]), (''status'', JNum 200)])
     ''status'' = Inr (JNum 200)
   \<and> fst (fetchPerson (\<lambda>v. False)
       (table_transport
          [(''/ws/rest/v1/person?q=ann'',
            JObj [(''data'', JObj [(''results'', JArr [JStr ''p1''])]), (''status'', JNum 200)])]
          JNull) ''ann'' start)
     = Inr (JObj [(''data'', JObj [(''results'', JArr [JStr ''p1''])])])
   \<and> (case fst (fetchPerson (\<lambda>v. False)
       (table_transport
          [(''/ws/rest/v1/person?q=ann'',
            JObj [(''data'', JObj [(''results'', JArr [JStr ''p1''])]), (''status'', JNum 200)])]
          JNull) ''ann'' start) of Inl e \<Rightarrow> Inl e | Inr v \<Rightarrow> get_prop v ''status'')
     = Inr JUndefined"
proof -
  let ?t1 = "table_transport
        [(''/ws/rest/v1/person?q=ann'',
          JObj [(''data'', JObj [(''results'', JArr [JStr ''p1''])]), (''status'', JNum 200)])]
        JNull"
  have k: "''status'' \<noteq> ''data''" by simp
  have g: "get_prop (JObj [(''data'', JObj [(''results'', JArr [JStr ''p1''])]),
                           (''status'', JNum 200)]) ''status'' = Inr (JNum 200)"
    by (simp add: lookup_def)
  have p1: "?t1 \<lparr>req_url = ''/ws/rest/v1/person?q='' @ ''ann'', req_init = signal_init\<rparr>
               (world start)
             = (Inr (JObj [(''data'', JObj [(''results'', JArr [JStr ''p1''])]),
                           (''status'', JNum 200)]), 1)"
    by (simp add: table_transport_def start_def)
  have p2: "get_prop (JObj [(''data'', JObj [(''results'', JArr [JStr ''p1''])]),
                            (''status'', JNum 200)]) ''data''
             = Inr (JObj [(''results'', JArr [JStr ''p1''])])"
    and p3: "get_prop (JObj [(''results'', JArr [JStr ''p1''])]) ''results''
             = Inr (JArr [JStr ''p1''])"
    by (simp_all add: lookup_def)
  have p4: "[JStr ''p1''] \<noteq> []" by simp
  note r = fetchPerson_results_only
         [where pos = "\<lambda>v. False" and t = ?t1 and q = "''ann''" and s = start and w' = 1, OF p1 p2 p3 p4]
  show ?thesis
    using g r [THEN conjunct1] r [THEN conjunct2, rule_format, OF k]
    by (simp only: simp_thms)
qed

section \<open>Photo upload conversion\<close>

text \<open>
  C2, as stated: for every valid data URI \<^verbatim>\<open>data:<mime>;base64,<payload>\<close> the blob
  produced has the declared MIME type. For \<^verbatim>\<open>data:IMAGE/PNG;base64,QUJD\<close> the blob built
  has the type \<^verbatim>\<open>image/png\<close>, and the file returned has the empty type: neither is the
  declared \<^verbatim>\<open>IMAGE/PNG\<close>.
\<close>

theorem dataURItoFile_mime_counterexample:
  "data_uri ''IMAGE/PNG'' ''QUJD'' = ''data:IMAGE/PNG;base64,QUJD''
   \<and> valid_mime ''IMAGE/PNG'' \<and> valid_payload ''QUJD''
   \<and> dataURItoFile_blob ''data:IMAGE/PNG;base64,QUJD'' =
       Inr \<lparr>blob_bytes = [65, 66, 67], blob_type = ''image/png''\<rparr>
   \<and> dataURItoFile ''data:IMAGE/PNG;base64,QUJD'' =
       Inr \<lparr>file_bytes = [65, 66, 67], file_type = [], file_name = ''patient-photo.png''\<rparr>
   \<and> ''image/png'' \<noteq> ''IMAGE/PNG'' \<and> [] \<noteq> ''IMAGE/PNG''"
proof -
  have fb: "fill_buffer 0 ''ABC'' [0, 0, 0] = [65, 66, 67]"
    using fill_buffer_all [of "''ABC''"] by (simp add: numeral_3_eq_3)
  have n: "normalize_type ''IMAGE/PNG'' = ''image/png''"
    by (simp add: normalize_type_def ascii_lowercase_def char_of_eq_iff take_bit_eq_mod)
  have b: "dataURItoFile_blob ''data:IMAGE/PNG;base64,QUJD'' =
       Inr \<lparr>blob_bytes = [65, 66, 67], blob_type = ''image/png''\<rparr>"
    using fb by (simp add: dataURItoFile_blob_def nth_opt_def atob_def to_DOMString_def
          decode_QUJD new_Blob_def n)
  have f: "dataURItoFile ''data:IMAGE/PNG;base64,QUJD'' =
       Inr \<lparr>file_bytes = [65, 66, 67], file_type = [], file_name = ''patient-photo.png''\<rparr>"
    by (simp add: dataURItoFile_def b new_File_def)
  show ?thesis
    using b f by (simp add: data_uri_def valid_mime_def valid_payload_def decode_QUJD)
qed

text \<open>
  C2, amended. For every valid data URI \<^verbatim>\<open>data:<mime>;base64,<payload>\<close>,
  \<^verbatim>\<open>dataURItoFile\<close> builds a blob whose byte length is the decoded length of the payload
  and whose type is the declared MIME type in ASCII lowercase (the empty string when
  the declared type has a character outside U+0020 to U+007E), and returns a file with
  the bytes of that blob, so of the same length, that is always named
  \<^verbatim>\<open>patient-photo.png\<close>, whatever the MIME type.
\<close>

theorem dataURItoFile_valid:
  assumes "valid_mime mime" and "valid_payload payload"
  shows "\<exists>byteString blob upload.
           atob (Some payload) = Inr byteString
         \<and> dataURItoFile_blob (data_uri mime payload) = Inr blob
         \<and> dataURItoFile (data_uri mime payload) = Inr upload
         \<and> blob_bytes blob = map (\<lambda>c. of_nat (of_char c)) byteString
         \<and> blob_size blob = decoded_length payload
         \<and> blob_type blob = normalize_type mime
         \<and> file_bytes upload = blob_bytes blob
         \<and> file_size upload = decoded_length payload
         \<and> file_name upload = ''patient-photo.png''"
proof -
  from assms(2) obtain bs where bs: "forgiving_base64_decode payload = Some bs"
    by (auto simp: valid_payload_def)
  have nc: "CHR '','' \<notin> set payload" using bs by (rule decode_no_comma)
  have a: "atob (Some payload) = Inr bs"
    by (simp add: atob_def to_DOMString_def bs)
  have len: "length bs = decoded_length payload" using bs by (rule decode_length)
  define head where "head = ''data:'' @ mime @ '';base64''"
  define rest where "rest = mime @ '';base64''"
  have h0: "nth_opt (split_on CHR '','' (data_uri mime payload)) 1 = Some payload"
    and h1: "nth_opt (split_on CHR '','' (data_uri mime payload)) 0 = Some head"
    by (simp_all add: split_data_uri[OF assms(1) nc] nth_opt_def head_def)
  have h2: "nth_opt (split_on CHR '':'' head) 1 = Some rest"
    unfolding head_def rest_def split_head[OF assms(1)] by (simp add: nth_opt_def)
  have h3: "nth_opt (split_on CHR '';'' rest) 0 = Some mime"
    unfolding rest_def split_mime[OF assms(1)] by (simp add: nth_opt_def)
  have b: "dataURItoFile_blob (data_uri mime payload) =
          Inr \<lparr>blob_bytes = map (\<lambda>c. of_nat (of_char c)) bs,
               blob_type = normalize_type mime\<rparr>"
    using h2 h3 unfolding dataURItoFile_blob_def h0 h1
    by (simp add: a fill_buffer_all Let_def new_Blob_def)
  have f: "dataURItoFile (data_uri mime payload) =
          Inr \<lparr>file_bytes = map (\<lambda>c. of_nat (of_char c)) bs, file_type = [],
               file_name = ''patient-photo.png''\<rparr>"
    by (simp add: dataURItoFile_def b new_File_def)
  show ?thesis
    using a b f len by (simp add: blob_size_def file_size_def)
qed

theorem dataURItoFile_valid_witness:
  "valid_mime ''image/png'' \<and> valid_payload ''QUJD''
   \<and> decoded_length ''QUJD'' = 3
   \<and> normalize_type ''image/png'' = ''image/png''
   \<and> (\<exists>blob upload.
         dataURItoFile_blob (data_uri ''image/png'' ''QUJD'') = Inr blob
       \<and> dataURItoFile (data_uri ''image/png'' ''QUJD'') = Inr upload
       \<and> blob_size blob = 3 \<and> blob_type blob = ''image/png''
       \<and> file_size upload = 3 \<and> file_name upload = ''patient-photo.png'')"
proof -
  have m: "valid_mime ''image/png''" by (simp add: valid_mime_def)
  have p: "valid_payload ''QUJD''" by (simp add: valid_payload_def decode_QUJD)
  have l: "decoded_length ''QUJD'' = 3"
    by (simp add: decoded_length_def is_ascii_whitespace_def strip_padding_def)
  have n: "normalize_type ''image/png'' = ''image/png''"
    by (simp add: normalize_type_def ascii_lowercase_def)
  from dataURItoFile_valid [OF m p] obtain byteString blob upload where
    "dataURItoFile_blob (data_uri ''image/png'' ''QUJD'') = Inr blob"
    "dataURItoFile (data_uri ''image/png'' ''QUJD'') = Inr upload"
    "blob_size blob = decoded_length ''QUJD''"
    "blob_type blob = normalize_type ''image/png''"
    "file_size upload = decoded_length ''QUJD''"
    "file_name upload = ''patient-photo.png''"
    by blast
  then have "\<exists>blob upload.
         dataURItoFile_blob (data_uri ''image/png'' ''QUJD'') = Inr blob
       \<and> dataURItoFile (data_uri ''image/png'' ''QUJD'') = Inr upload
       \<and> blob_size blob = 3 \<and> blob_type blob = ''image/png''
       \<and> file_size upload = 3 \<and> file_name upload = ''patient-photo.png''"
    unfolding l n by blast
  then show ?thesis using m p l n by (simp only: simp_thms)
qed

text \<open>
  C6. For every data URI without a comma, \<^verbatim>\<open>dataURItoFile\<close> raises the decoding error of
  \<^verbatim>\<open>atob\<close> (the missing second piece is decoded as the text \<^verbatim>\<open>undefined\<close>, whose length
  is not one base64 accepts). Nothing catches it: \<^verbatim>\<open>savePatientPhoto\<close> fails with the same
  error and sends no request.
\<close>

theorem dataURItoFile_no_comma:
  assumes "CHR '','' \<notin> set dataURI"
  shows "dataURItoFile dataURI = Inl InvalidCharacterError
       \<and> savePatientPhoto t patientUuid dataURI url date conceptUuid s
           = (Inl InvalidCharacterError, s)"
proof -
  have u: "forgiving_base64_decode ''undefined'' = None"
    by (simp add: forgiving_base64_decode_def is_ascii_whitespace_def strip_padding_def)
  have "dataURItoFile_blob dataURI = Inl InvalidCharacterError"
    unfolding dataURItoFile_blob_def split_on_absent[OF assms]
    by (simp add: nth_opt_def atob_def to_DOMString_def u)
  then have "dataURItoFile dataURI = Inl InvalidCharacterError"
    by (simp add: dataURItoFile_def)
  then show ?thesis by (simp add: savePatientPhoto_def)
qed

theorem dataURItoFile_no_comma_witness:
  "CHR '','' \<notin> set ''data:image/png;base64''
   \<and> dataURItoFile ''data:image/png;base64'' = Inl InvalidCharacterError
   \<and> savePatientPhoto (table_transport [] JNull) ''p1'' ''data:image/png;base64''
        ''/ws/rest/v1/obs'' ''2024-01-01'' ''c1'' start
       = (Inl InvalidCharacterError, start)"
proof -
  have h: "CHR '','' \<notin> set ''data:image/png;base64''" by simp
  show ?thesis using h dataURItoFile_no_comma [OF h] by simp
qed

section \<open>Headers and bodies\<close>

text \<open>
  C5. \<^verbatim>\<open>savePatient(patient, "abc")\<close> issues exactly one request: a POST to
  \<^verbatim>\<open>/ws/rest/v1/patient/abc\<close> with \<^verbatim>\<open>Content-Type: application/json\<close> and the patient
  object as its body, and returns what the transport answers. Without a uuid the POST
  goes to \<^verbatim>\<open>/ws/rest/v1/patient/\<close>.
\<close>

theorem savePatient_request:
  "savePatient t patient (Some ''abc'') s =
     (fst (t \<lparr>req_url = ''/ws/rest/v1/patient/abc'',
               req_init = \<lparr>init_method = Some ''POST'',
                            init_headers = Some [(''Content-Type'', ''application/json'')],
                            init_body = Some (JsonBody patient),
                            init_signal = Some (AbortSignal False)\<rparr>\<rparr> (world s)),
      \<lparr>world = snd (t \<lparr>req_url = ''/ws/rest/v1/patient/abc'',
               req_init = \<lparr>init_method = Some ''POST'',
                            init_headers = Some [(''Content-Type'', ''application/json'')],
                            init_body = Some (JsonBody patient),
                            init_signal = Some (AbortSignal False)\<rparr>\<rparr> (world s)),
       sent = sent s @ [\<lparr>req_url = ''/ws/rest/v1/patient/abc'',
               req_init = \<lparr>init_method = Some ''POST'',
                            init_headers = Some [(''Content-Type'', ''application/json'')],
                            init_body = Some (JsonBody patient),
                            init_signal = Some (AbortSignal False)\<rparr>\<rparr>]\<rparr>)
   \<and> sent (snd (savePatient t patient None s)) =
       sent s @ [\<lparr>req_url = ''/ws/rest/v1/patient/'',
               req_init = \<lparr>init_method = Some ''POST'',
                            init_headers = Some [(''Content-Type'', ''application/json'')],
                            init_body = Some (JsonBody patient),
                            init_signal = Some (AbortSignal False)\<rparr>\<rparr>]"
  by (simp add: savePatient_def openmrsFetch_eq or_empty_def json_headers_def new_signal_def)

theorem savePatient_request_witness:
  "sent (snd (savePatient (table_transport [] JNull) (JObj [(''person'', JStr ''x'')])
                (Some ''abc'') start)) =
     [\<lparr>req_url = ''/ws/rest/v1/patient/abc'',
       req_init = \<lparr>init_method = Some ''POST'',
                    init_headers = Some [(''Content-Type'', ''application/json'')],
                    init_body = Some (JsonBody (JObj [(''person'', JStr ''x'')])),
                    init_signal = Some (AbortSignal False)\<rparr>\<rparr>]"
  using savePatient_request [of "table_transport [] JNull" "JObj [(''person'', JStr ''x'')]" start]
  by (simp add: start_def)

text \<open>
  C3, as stated: the JSON content type is attached exactly when the body is JSON, and
  omitted for requests without a body. \<^verbatim>\<open>deleteRelationship("rel-1")\<close> sends a DELETE
  without a body that carries the header.
\<close>

theorem content_type_without_body_counterexample:
  "sent (snd (deleteRelationship (table_transport [] JNull) ''rel-1'' start)) =
     [\<lparr>req_url = ''/ws/rest/v1/relationship/rel-1'',
       req_init = \<lparr>init_method = Some ''DELETE'',
                    init_headers = Some [(''Content-Type'', ''application/json'')],
                    init_body = None,
                    init_signal = Some (AbortSignal False)\<rparr>\<rparr>]
   \<and> has_json_content_type
        (hd (sent (snd (deleteRelationship (table_transport [] JNull) ''rel-1'' start))))
   \<and> \<not> body_is_json
        (hd (sent (snd (deleteRelationship (table_transport [] JNull) ''rel-1'' start))))
   \<and> has_no_body
        (hd (sent (snd (deleteRelationship (table_transport [] JNull) ''rel-1'' start))))"
  by (simp add: deleteRelationship_def openmrsFetch_eq start_def json_headers_def
        new_signal_def has_json_content_type_def body_is_json_def has_no_body_def)

text \<open>
  C3, amended. In every request of every request function, a JSON body comes with
  \<^verbatim>\<open>Content-Type: application/json\<close> and a multipart body comes without a Content-Type
  header. Requests without a body differ: \<^verbatim>\<open>deleteRelationship\<close> and
  \<^verbatim>\<open>deletePatientIdentifier\<close> attach the header, \<^verbatim>\<open>deletePersonName\<close> and the requests of
  \<^verbatim>\<open>fetchPerson\<close> do not.
\<close>

theorem content_type_by_body:
  "(\<forall>r \<in> set (new_requests s (perform pos t c s)).
       (body_is_json r \<longrightarrow> has_json_content_type r)
     \<and> (body_is_multipart r \<longrightarrow> \<not> has_content_type r))
   \<and> (\<exists>r. new_requests s (deleteRelationship t relationshipUuid s) = [r]
          \<and> has_no_body r \<and> has_json_content_type r)
   \<and> (\<exists>r. new_requests s (deletePatientIdentifier t patientUuid identifierUuid s) = [r]
          \<and> has_no_body r \<and> has_json_content_type r)
   \<and> (\<exists>r. new_requests s (deletePersonName t nameUuid personUuid s) = [r]
          \<and> has_no_body r \<and> \<not> has_content_type r)
   \<and> (\<forall>r \<in> set (new_requests s (fetchPerson pos t q s)).
          has_no_body r \<and> \<not> has_content_type r)"
proof -
  have a: "\<forall>r \<in> set (new_requests s (perform pos t c s)).
       (body_is_json r \<longrightarrow> has_json_content_type r)
     \<and> (body_is_multipart r \<longrightarrow> \<not> has_content_type r)"
    using header_by_body by blast
  have b: "\<exists>r. new_requests s (deleteRelationship t relationshipUuid s) = [r]
          \<and> has_no_body r \<and> has_json_content_type r"
    by (simp add: deleteRelationship_def new_requests_openmrsFetch has_no_body_def
          has_json_content_type_def json_headers_def)
  have c: "\<exists>r. new_requests s (deletePatientIdentifier t patientUuid identifierUuid s) = [r]
          \<and> has_no_body r \<and> has_json_content_type r"
    by (simp add: deletePatientIdentifier_def new_requests_openmrsFetch has_no_body_def
          has_json_content_type_def json_headers_def)
  have d: "\<exists>r. new_requests s (deletePersonName t nameUuid personUuid s) = [r]
          \<and> has_no_body r \<and> \<not> has_content_type r"
    by (simp add: deletePersonName_def new_requests_openmrsFetch has_no_body_def
          has_content_type_def)
  have e: "\<forall>r \<in> set (new_requests s (fetchPerson pos t q s)).
          has_no_body r \<and> \<not> has_content_type r"
    using fetchPerson_new_requests[where s = s and t = t and q = q and pos = pos]
    by (auto simp: has_no_body_def has_content_type_def signal_init_def)
  show ?thesis using a b c d e by blast
qed

theorem content_type_by_body_witness:
  "body_is_json (hd (new_requests start
      (perform (\<lambda>v. False) (table_transport [] JNull) (SavePatient (JObj []) None) start)))
   \<and> has_json_content_type (hd (new_requests start
      (perform (\<lambda>v. False) (table_transport [] JNull) (SavePatient (JObj []) None) start)))
   \<and> body_is_multipart (hd (new_requests start
      (perform (\<lambda>v. False) (table_transport [] JNull)
         (SavePatientPhoto ''p1'' (data_uri ''image/png'' ''QUJD'') ''/ws/rest/v1/obs''
            ''2024-01-01'' ''c1'') start)))
   \<and> \<not> has_content_type (hd (new_requests start
      (perform (\<lambda>v. False) (table_transport [] JNull)
         (SavePatientPhoto ''p1'' (data_uri ''image/png'' ''QUJD'') ''/ws/rest/v1/obs''
            ''2024-01-01'' ''c1'') start)))"
proof -
  let ?t = "table_transport [] JNull"
  let ?a = "new_requests start (perform (\<lambda>v. False) ?t (SavePatient (JObj []) None) start)"
  let ?b = "new_requests start (perform (\<lambda>v. False) ?t
         (SavePatientPhoto ''p1'' (data_uri ''image/png'' ''QUJD'') ''/ws/rest/v1/obs''
            ''2024-01-01'' ''c1'') start)"
  have f: "dataURItoFile (data_uri ''image/png'' ''QUJD'') =
       Inr \<lparr>file_bytes = [65, 66, 67], file_type = [],
            file_name = ''patient-photo.png''\<rparr>"
    by (rule dataURItoFile_example)
  have a: "?a \<noteq> []" and ja: "body_is_json (hd ?a)"
    by (simp_all add: savePatient_def new_requests_openmrsFetch body_is_json_def)
  have b: "?b \<noteq> []" and mb: "body_is_multipart (hd ?b)"
    by (simp_all add: savePatientPhoto_def f new_requests_openmrsFetch body_is_multipart_def)
  have "hd ?a \<in> set ?a" and "hd ?b \<in> set ?b"
    using a b by simp_all
  with content_type_by_body [where pos = "\<lambda>v. False" and t = ?t and s = start and c = "SavePatient (JObj []) None"]
       content_type_by_body [where pos = "\<lambda>v. False" and t = ?t and s = start
         and c = "SavePatientPhoto ''p1'' (data_uri ''image/png'' ''QUJD'') ''/ws/rest/v1/obs''
            ''2024-01-01'' ''c1''"]
       ja mb
  show ?thesis by blast
qed

section \<open>Errors\<close>

text \<open>
  C8. Failures of the transport reach the caller unchanged. The catch-and-rethrow of
  \<^verbatim>\<open>fetchPerson\<close> changes nothing: the function settles as its \<^verbatim>\<open>try\<close> block does, a
  rejection of the person search is the rejection of \<^verbatim>\<open>fetchPerson\<close>, and so is a
  rejection of the patient search in the fallback. Every function that makes a single
  request returns exactly what the transport answered to it, and so does
  \<^verbatim>\<open>savePatientPhoto\<close> once the data URI has been converted.
\<close>

theorem transport_errors_unchanged:
  "fetchPerson pos t q s = settle (fetchPerson_try pos t q s)
   \<and> (t \<lparr>req_url = ''/ws/rest/v1/person?q='' @ q, req_init = signal_init\<rparr> (world s)
         = (Inl e, w') \<longrightarrow>
       fetchPerson pos t q s =
         (Inl e, \<lparr>world = w',
                  sent = sent s @ [\<lparr>req_url = ''/ws/rest/v1/person?q='' @ q,
                                    req_init = signal_init\<rparr>]\<rparr>))
   \<and> (t \<lparr>req_url = ''/ws/rest/v1/person?q='' @ q, req_init = signal_init\<rparr> (world s)
         = (Inr response, w')
       \<and> get_prop response ''data'' = Inr d
       \<and> get_prop d ''results'' = Inr (JArr [])
       \<and> t \<lparr>req_url = ''/ws/rest/v1/patient?q='' @ q, req_init = signal_init\<rparr> w'
         = (Inl e, w'') \<longrightarrow>
       fetchPerson pos t q s =
         (Inl e, \<lparr>world = w'',
                  sent = sent s @ [\<lparr>req_url = ''/ws/rest/v1/person?q='' @ q,
                                    req_init = signal_init\<rparr>,
                                   \<lparr>req_url = ''/ws/rest/v1/patient?q='' @ q,
                                    req_init = signal_init\<rparr>]\<rparr>))
   \<and> (single_request c \<longrightarrow>
       (\<exists>req. perform pos t c s =
          (fst (t req (world s)),
           \<lparr>world = snd (t req (world s)), sent = sent s @ [req]\<rparr>)))
   \<and> (dataURItoFile content = Inr upload \<longrightarrow>
       (\<exists>req. savePatientPhoto t patientUuid content url date conceptUuid s =
          (fst (t req (world s)),
           \<lparr>world = snd (t req (world s)), sent = sent s @ [req]\<rparr>)))"
proof -
  have a: "fetchPerson pos t q s = settle (fetchPerson_try pos t q s)"
    by (simp add: fetchPerson_def try_catch_throw)
  have b: "t \<lparr>req_url = ''/ws/rest/v1/person?q='' @ q, req_init = signal_init\<rparr> (world s)
         = (Inl e, w') \<longrightarrow>
       fetchPerson pos t q s =
         (Inl e, \<lparr>world = w',
                  sent = sent s @ [\<lparr>req_url = ''/ws/rest/v1/person?q='' @ q,
                                    req_init = signal_init\<rparr>]\<rparr>)"
    by (simp add: a fetchPerson_try_def openmrsFetch_eq personEndpoint_def BASE_API_def
          settle_def)
  have c: "t \<lparr>req_url = ''/ws/rest/v1/person?q='' @ q, req_init = signal_init\<rparr> (world s)
         = (Inr response, w')
       \<and> get_prop response ''data'' = Inr d
       \<and> get_prop d ''results'' = Inr (JArr [])
       \<and> t \<lparr>req_url = ''/ws/rest/v1/patient?q='' @ q, req_init = signal_init\<rparr> w'
         = (Inl e, w'') \<longrightarrow>
       fetchPerson pos t q s =
         (Inl e, \<lparr>world = w'',
                  sent = sent s @ [\<lparr>req_url = ''/ws/rest/v1/person?q='' @ q,
                                    req_init = signal_init\<rparr>,
                                   \<lparr>req_url = ''/ws/rest/v1/patient?q='' @ q,
                                    req_init = signal_init\<rparr>]\<rparr>)"
    by (simp add: a fetchPerson_try_def openmrsFetch_eq personEndpoint_def patientEndpoint_def
          BASE_API_def settle_def)
  have d: "single_request c \<longrightarrow>
       (\<exists>req. perform pos t c s =
          (fst (t req (world s)),
           \<lparr>world = snd (t req (world s)), sent = sent s @ [req]\<rparr>))"
    using single_request_perform by blast
  have e: "dataURItoFile content = Inr upload \<longrightarrow>
       (\<exists>req. savePatientPhoto t patientUuid content url date conceptUuid s =
          (fst (t req (world s)),
           \<lparr>world = snd (t req (world s)), sent = sent s @ [req]\<rparr>))"
    by (auto simp: savePatientPhoto_def openmrsFetch_eq Let_def)
  show ?thesis using a b c d e by blast
qed

theorem transport_errors_unchanged_witness:
  "fetchPerson (\<lambda>v. False) (table_transport [] (JNum 500)) ''ann'' start
     = (Inl (OpenmrsFetchError (JNum 500)),
        \<lparr>world = 1,
         sent = [\<lparr>req_url = ''/ws/rest/v1/person?q=ann'', req_init = signal_init\<rparr>]\<rparr>)
   \<and> fetchPerson (\<lambda>v. False)
       (table_transport
          [(''/ws/rest/v1/person?q=ann'', JObj [(''data'', JObj [(''results'', JArr [])])])]
          (JNum 500)) ''ann'' start
     = (Inl (OpenmrsFetchError (JNum 500)),
        \<lparr>world = 2,
         sent = [\<lparr>req_url = ''/ws/rest/v1/person?q=ann'', req_init = signal_init\<rparr>,
                 \<lparr>req_url = ''/ws/rest/v1/patient?q=ann'', req_init = signal_init\<rparr>]\<rparr>)
   \<and> fst (perform (\<lambda>v. False) (table_transport [] (JNum 500)) (DeleteRelationship ''rel-1'') start)
     = Inl (OpenmrsFetchError (JNum 500))
   \<and> fst (savePatientPhoto (table_transport [] (JNum 500)) ''p1''
            (data_uri ''image/png'' ''QUJD'') ''/ws/rest/v1/obs'' ''2024-01-01'' ''c1'' start)
     = Inl (OpenmrsFetchError (JNum 500))"
proof -
  let ?t1 = "table_transport [] (JNum 500)"
  let ?t2 = "table_transport
          [(''/ws/rest/v1/person?q=ann'', JObj [(''data'', JObj [(''results'', JArr [])])])]
          (JNum 500)"
  let ?file = "\<lparr>file_bytes = [65, 66, 67], file_type = [],
            file_name = ''patient-photo.png''\<rparr>"
  have f: "dataURItoFile (data_uri ''image/png'' ''QUJD'') = Inr ?file"
    by (rule dataURItoFile_example)
  have sr: "single_request (DeleteRelationship ''rel-1'')" by simp
  note i1 = transport_errors_unchanged
         [where pos = "\<lambda>v. False" and t = ?t1 and q = "''ann''" and s = start and w' = 1
            and e = "OpenmrsFetchError (JNum 500)" and c = "DeleteRelationship ''rel-1''"
            and content = "data_uri ''image/png'' ''QUJD''" and upload = ?file
            and patientUuid = "''p1''" and url = "''/ws/rest/v1/obs''"
            and date = "''2024-01-01''" and conceptUuid = "''c1''"]
  note i2 = transport_errors_unchanged
         [where pos = "\<lambda>v. False" and t = ?t2 and q = "''ann''" and s = start and w' = 1 and w'' = 2
            and e = "OpenmrsFetchError (JNum 500)"
            and response = "JObj [(''data'', JObj [(''results'', JArr [])])]"
            and d = "JObj [(''results'', JArr [])]"]
  have a: "fetchPerson (\<lambda>v. False) ?t1 ''ann'' start
     = (Inl (OpenmrsFetchError (JNum 500)),
        \<lparr>world = 1,
         sent = [\<lparr>req_url = ''/ws/rest/v1/person?q=ann'', req_init = signal_init\<rparr>]\<rparr>)"
    using i1 [THEN conjunct2, THEN conjunct1]
    by (simp add: table_transport_def start_def)
  have b: "fetchPerson (\<lambda>v. False) ?t2 ''ann'' start
     = (Inl (OpenmrsFetchError (JNum 500)),
        \<lparr>world = 2,
         sent = [\<lparr>req_url = ''/ws/rest/v1/person?q=ann'', req_init = signal_init\<rparr>,
                 \<lparr>req_url = ''/ws/rest/v1/patient?q=ann'', req_init = signal_init\<rparr>]\<rparr>)"
    using i2 [THEN conjunct2, THEN conjunct2, THEN conjunct1]
    by (simp add: table_transport_def start_def lookup_def)
  have "\<exists>req. perform (\<lambda>v. False) ?t1 (DeleteRelationship ''rel-1'') start =
          (fst (?t1 req (world start)),
           \<lparr>world = snd (?t1 req (world start)), sent = sent start @ [req]\<rparr>)"
    using i1 [THEN conjunct2, THEN conjunct2, THEN conjunct2, THEN conjunct1] sr by blast
  then obtain req where "perform (\<lambda>v. False) ?t1 (DeleteRelationship ''rel-1'') start =
          (fst (?t1 req (world start)),
           \<lparr>world = snd (?t1 req (world start)), sent = sent start @ [req]\<rparr>)" ..
  then have c: "fst (perform (\<lambda>v. False) ?t1 (DeleteRelationship ''rel-1'') start)
     = Inl (OpenmrsFetchError (JNum 500))"
    by (simp only: fst_conv table_transport_empty)
  have "\<exists>req. savePatientPhoto ?t1 ''p1''
            (data_uri ''image/png'' ''QUJD'') ''/ws/rest/v1/obs'' ''2024-01-01'' ''c1'' start =
          (fst (?t1 req (world start)),
           \<lparr>world = snd (?t1 req (world start)), sent = sent start @ [req]\<rparr>)"
    using i1 [THEN conjunct2, THEN conjunct2, THEN conjunct2, THEN conjunct2] f by blast
  then obtain req' where "savePatientPhoto ?t1 ''p1''
            (data_uri ''image/png'' ''QUJD'') ''/ws/rest/v1/obs'' ''2024-01-01'' ''c1'' start =
          (fst (?t1 req' (world start)),
           \<lparr>world = snd (?t1 req' (world start)), sent = sent start @ [req']\<rparr>)" ..
  then have d: "fst (savePatientPhoto ?t1 ''p1''
            (data_uri ''image/png'' ''QUJD'') ''/ws/rest/v1/obs'' ''2024-01-01'' ''c1'' start)
     = Inl (OpenmrsFetchError (JNum 500))"
    by (simp only: fst_conv table_transport_empty)
  show ?thesis using a b c d by (simp only: simp_thms)
qed

section \<open>The photo hook\<close>

text \<open>
  C4. \<^verbatim>\<open>usePatientPhoto\<close> with the empty \<^verbatim>\<open>patientUuid\<close> makes no request, whatever the
  collaborator would do with a key: the state is unchanged, and the result is
  \<^verbatim>\<open>data: null\<close>, no error and \<^verbatim>\<open>isLoading: false\<close>.
\<close>

theorem usePatientPhoto_empty_uuid:
  "usePatientPhoto cfg swr t [] s =
     (Inr \<lparr>data = None, isError = None, isLoading = False\<rparr>, s)"
  by (simp add: usePatientPhoto_def useSWR_def first_item_def nullish_def)

theorem usePatientPhoto_empty_uuid_witness:
  "usePatientPhoto config0 swr_settled (table_transport [] JNull) [] start =
     (Inr \<lparr>data = None, isError = None, isLoading = False\<rparr>, start)
   \<and> sent start = []"
  using usePatientPhoto_empty_uuid [of config0 swr_settled "table_transport [] JNull" start]
  by (simp add: start_def)



text \<open>
  C10. There is a response shape on which \<^verbatim>\<open>usePatientPhoto\<close> throws: a response object
  whose \<^verbatim>\<open>data\<close> member is an object without \<^verbatim>\<open>results\<close>. The optional chaining stops
  at \<^verbatim>\<open>results\<close>, so the index \<^verbatim>\<open>[0]\<close> is applied to \<^verbatim>\<open>undefined\<close> and raises a
  TypeError.
\<close>

theorem usePatientPhoto_results_absent:
  assumes "patientUuid \<noteq> []"
    and "swr (photo_url patientUuid (patientPhotoUuid (concepts cfg)))
           (\<lambda>u. openmrsFetch t u no_init) s = (response, s')"
    and "swr_data response = JObj outer"
    and "lookup outer ''data'' = JObj inner"
    and "lookup inner ''results'' = JUndefined"
  shows "usePatientPhoto cfg swr t patientUuid s = (Inl TypeError, s')"
  using assms
  by (simp add: usePatientPhoto_def useSWR_def first_item_def nullish_def)

theorem usePatientPhoto_results_absent_witness:
  "usePatientPhoto config0 swr_settled
     (table_transport [(''/ws/rest/v1/obs?patient=p1&concept=c1&v=full'',
                        JObj [(''data'', JObj [])])] JNull) ''p1'' start
   = (Inl TypeError,
      \<lparr>world = 1,
       sent = [\<lparr>req_url = ''/ws/rest/v1/obs?patient=p1&concept=c1&v=full'',
                req_init = no_init\<rparr>]\<rparr>)"
proof -
  have ne: "''p1'' \<noteq> []" by simp
  have l1: "lookup [(''data'', JObj [])] ''data'' = JObj []" by (simp add: lookup_def)
  have l2: "lookup [] ''results'' = JUndefined" by (simp add: lookup_def)
  show ?thesis
    using usePatientPhoto_results_absent
      [where patientUuid = "''p1''" and swr = swr_settled and cfg = config0 and s = start
         and t = "table_transport [(''/ws/rest/v1/obs?patient=p1&concept=c1&v=full'',
                                    JObj [(''data'', JObj [])])] JNull"
         and response = "\<lparr>swr_data = JObj [(''data'', JObj [])], swr_error = None,
                           swr_isLoading = False\<rparr>"
         and s' = "\<lparr>world = 1,
                     sent = [\<lparr>req_url = ''/ws/rest/v1/obs?patient=p1&concept=c1&v=full'',
                              req_init = no_init\<rparr>]\<rparr>"
         and outer = "[(''data'', JObj [])]" and inner = "[]"]
    by (simp add: ne l1 l2 photo_url0 swr_settled_table)
qed

end
